theory Spec2Isabelle
  imports Main
begin

section \<open>Python values that reach the client\<close>

text \<open>
  The client of \<^verbatim>\<open>api.py\<close> is dynamically typed. The values its methods receive are
  \<^verbatim>\<open>None\<close>, strings, integers, booleans (the documented argument types) and flat lists
  of those. Floats and nested lists are outside this model: their \<^verbatim>\<open>str\<close> needs Python's
  float printing and \<^verbatim>\<open>repr\<close>.
\<close>

datatype atom = ANone | AStr string | AInt int | ABool bool

datatype pyval = Atom atom | PyList "atom list"

abbreviation PyNone :: pyval where
  "PyNone \<equiv> Atom ANone"

abbreviation PyStr :: "string \<Rightarrow> pyval" where
  "PyStr s \<equiv> Atom (AStr s)"

abbreviation PyInt :: "int \<Rightarrow> pyval" where
  "PyInt i \<equiv> Atom (AInt i)"

subsection \<open>\<^verbatim>\<open>bool(x)\<close>: the truth value tested by \<^verbatim>\<open>not x\<close>\<close>

fun truthy_atom :: "atom \<Rightarrow> bool" where
  "truthy_atom ANone = False"
| "truthy_atom (AStr s) = (s \<noteq> [])"
| "truthy_atom (AInt i) = (i \<noteq> 0)"
| "truthy_atom (ABool b) = b"

fun truthy :: "pyval \<Rightarrow> bool" where
  "truthy (Atom a) = truthy_atom a"
| "truthy (PyList xs) = (xs \<noteq> [])"

subsection \<open>\<^verbatim>\<open>str(x)\<close>\<close>

definition digit_char :: "nat \<Rightarrow> char" where
  "digit_char d = ''0123456789'' ! d"

fun str_nat :: "nat \<Rightarrow> string" where
  "str_nat n = (if n < 10 then [digit_char n] else str_nat (n div 10) @ [digit_char (n mod 10)])"

declare str_nat.simps [simp del]

definition str_int :: "int \<Rightarrow> string" where
  "str_int i = (if i < 0 then ''-'' @ str_nat (nat (- i)) else str_nat (nat i))"

fun str_atom :: "atom \<Rightarrow> string" where
  "str_atom ANone = ''None''"
| "str_atom (AStr s) = s"
| "str_atom (AInt i) = str_int i"
| "str_atom (ABool b) = (if b then ''True'' else ''False'')"

subsection \<open>\<^verbatim>\<open>sep.join(xs)\<close>\<close>

fun join :: "string \<Rightarrow> string list \<Rightarrow> string" where
  "join sep [] = []"
| "join sep [x] = x"
| "join sep (x # y # ys) = x @ sep @ join sep (y # ys)"

section \<open>Errors\<close>

text \<open>
  \<^verbatim>\<open>APIKeyNotSet\<close> and \<^verbatim>\<open>APIAccessError\<close> are the two exception classes of \<^verbatim>\<open>api.py\<close>, each
  carrying its message. \<^verbatim>\<open>TypeError\<close> and \<^verbatim>\<open>KeyError\<close> are what the interpreter raises
  on \<^verbatim>\<open>str + non-str\<close> and on a missing dictionary key. \<^verbatim>\<open>RequestException\<close> and
  \<^verbatim>\<open>JSONDecodeError\<close> are raised by the two collaborators, \<^verbatim>\<open>requests.get\<close> and
  \<^verbatim>\<open>json.loads\<close>, and pass through the client uncaught.
\<close>

datatype error =
    APIKeyNotSet string
  | APIAccessError string
  | TypeError
  | KeyError string
  | RequestException
  | JSONDecodeError

section \<open>The endpoint registry (\<^verbatim>\<open>api_paths.py\<close>)\<close>

definition API :: "(string \<times> string) list" where
  "API =
    [(''stock'', ''https://www.worldtradingdata.com/api/v1/stock''),
     (''mutual_fund'', ''https://www.worldtradingdata.com/api/v1/mutualfund''),
     (''intraday'', ''https://www.worldtradingdata.com/api/v1/intraday''),
     (''history'', ''https://www.worldtradingdata.com/api/v1/history''),
     (''history_msd'', ''https://www.worldtradingdata.com/api/v1/history_multi_single_day''),
     (''forex'', ''https://www.worldtradingdata.com/api/v1/forex''),
     (''forex_history'', ''https://www.worldtradingdata.com/api/v1/forex_history''),
     (''forex_single_day'', ''https://www.worldtradingdata.com/api/v1/forex_single_day''),
     (''search'', ''https://www.worldtradingdata.com/api/v1/stock_search'')]"

text \<open>\<^verbatim>\<open>API[key]\<close>: a dictionary subscript, raising \<^verbatim>\<open>KeyError\<close> on a missing key.\<close>

definition API_get :: "string \<Rightarrow> error + string" where
  "API_get k = (case map_of API k of None \<Rightarrow> Inl (KeyError k) | Some u \<Rightarrow> Inr u)"

section \<open>The fetch routine \<^verbatim>\<open>_get_api_response\<close>\<close>

text \<open>What \<^verbatim>\<open>requests.get\<close> returns: \<^verbatim>\<open>resp.status_code\<close> and \<^verbatim>\<open>resp.text\<close>.\<close>

record response =
  status_code :: int
  resp_text :: string

definition SUCCESS :: int where
  "SUCCESS = 200"

text \<open>
  \<^verbatim>\<open>requests.get\<close> and \<^verbatim>\<open>json.loads\<close> are library code: they are the parameters
  \<open>get\<close> and \<open>loads\<close>, each either raising (\<open>Inl\<close>) or returning. The decoded JSON value
  is of any type \<open>'j\<close>.
\<close>

type_synonym transport = "string \<Rightarrow> error + response"

type_synonym 'j decoder = "string \<Rightarrow> error + 'j"

definition get_api_response :: "transport \<Rightarrow> 'j decoder \<Rightarrow> string \<Rightarrow> error + 'j" where
  "get_api_response get loads url =
    (case get url of
       Inl e \<Rightarrow> Inl e
     | Inr resp \<Rightarrow>
         if status_code resp \<noteq> SUCCESS
         then Inl (APIAccessError (''Error: '' @ resp_text resp))
         else loads (resp_text resp))"

section \<open>The client \<^verbatim>\<open>WTDApi\<close>\<close>

record client =
  api_key :: pyval

text \<open>
  The message of \<^verbatim>\<open>APIKeyNotSet\<close> is a triple-quoted literal: a line break, the first
  sentence indented by 16 spaces, the escape \<^verbatim>\<open>\n\<close> and a line break, the second
  sentence indented likewise, a line break and the indentation of the closing quotes.
\<close>

definition APIKeyNotSet_message :: string where
  "APIKeyNotSet_message =
    [CHR 0x0A] @ replicate 16 CHR '' '' @ ''API Key not set for this client.'' @
    [CHR 0x0A, CHR 0x0A] @ replicate 16 CHR '' '' @
    ''Obtain one from https://worldtradingdata.com/'' @
    [CHR 0x0A] @ replicate 16 CHR '' ''"

text \<open>
  \<^verbatim>\<open>__init__(self, api_key=None)\<close>. The argument is optional: \<open>None\<close> is a call
  without it, which binds the default \<^verbatim>\<open>None\<close>.
\<close>

definition default_arg :: "pyval \<Rightarrow> pyval option \<Rightarrow> pyval" where
  "default_arg d arg = (case arg of None \<Rightarrow> d | Some v \<Rightarrow> v)"

definition WTDApi_init :: "pyval option \<Rightarrow> error + client" where
  "WTDApi_init arg =
    (let key = default_arg PyNone arg
     in if \<not> truthy key then Inl (APIKeyNotSet APIKeyNotSet_message)
        else Inr \<lparr>api_key = key\<rparr>)"

definition set_api_key :: "'a client_scheme \<Rightarrow> pyval \<Rightarrow> 'a client_scheme" where
  "set_api_key self new_key = self\<lparr>api_key := new_key\<rparr>"

subsection \<open>The query string builder \<^verbatim>\<open>_build_misc_string\<close>\<close>

text \<open>
  \<^verbatim>\<open>kwargs\<close> is the association list of the keyword arguments in the order of the
  call, which is the order \<^verbatim>\<open>kwargs.items()\<close> iterates in. \<open>build_loop\<close> is the
  \<^verbatim>\<open>for\<close> loop, with \<open>misc\<close> the string accumulated so far. The keys of
  \<^verbatim>\<open>kwargs\<close> are strings, so \<^verbatim>\<open>str(key)\<close> is the key itself.
\<close>

fun build_loop :: "string \<Rightarrow> (string \<times> pyval) list \<Rightarrow> string" where
  "build_loop misc [] = misc"
| "build_loop misc ((key, value) # kwargs) =
    (if value = PyNone then build_loop misc kwargs
     else
       let key = key @ ''='';
           key = (case value of
                    PyList xs \<Rightarrow> key @ (join '','' (map str_atom xs) @ ''&'')
                  | Atom a \<Rightarrow> key @ (str_atom a @ ''&''))
       in build_loop (misc @ key) kwargs)"

text \<open>
  After the loop, \<^verbatim>\<open>"api_token=" + self.api_key\<close> concatenates two strings, and raises
  \<^verbatim>\<open>TypeError\<close> when the stored key is not a string.
\<close>

definition build_misc_string :: "'a client_scheme \<Rightarrow> (string \<times> pyval) list \<Rightarrow> error + string" where
  "build_misc_string self kwargs =
    (let misc = build_loop ''?'' kwargs
     in case api_key self of
          Atom (AStr k) \<Rightarrow> Inr (misc @ (''api_token='' @ k))
        | _ \<Rightarrow> Inl TypeError)"

subsection \<open>The operation methods\<close>

text \<open>
  Every method has the same two statements: \<^verbatim>\<open>url = API[...] + self._build_misc_string(...)\<close>
  and \<^verbatim>\<open>return _get_api_response(url)\<close>. The first is \<open>m_url\<close>, the method itself is
  \<open>m\<close>. An optional argument is a \<open>pyval option\<close>: \<open>None\<close> when the call leaves it
  out, so that the default of the signature is bound.
\<close>

text \<open>\<^verbatim>\<open>stocks(self, symbols, sort_by=None, sort_order=None)\<close>\<close>

definition stocks_url :: "'a client_scheme \<Rightarrow> pyval \<Rightarrow> pyval option \<Rightarrow> pyval option \<Rightarrow> error + string" where
  "stocks_url self symbols sort_by sort_order =
    (case API_get ''stock'' of
       Inl e \<Rightarrow> Inl e
     | Inr api \<Rightarrow>
         (case build_misc_string self
             [(''symbol'', symbols),
              (''sort_by'', default_arg PyNone sort_by),
              (''sort_order'', default_arg PyNone sort_order)] of
            Inl e \<Rightarrow> Inl e
          | Inr misc \<Rightarrow> Inr (api @ misc)))"

definition stocks ::
  "transport \<Rightarrow> 'j decoder \<Rightarrow> 'a client_scheme \<Rightarrow> pyval \<Rightarrow> pyval option \<Rightarrow> pyval option \<Rightarrow> error + 'j" where
  "stocks get loads self symbols sort_by sort_order =
    (case stocks_url self symbols sort_by sort_order of
       Inl e \<Rightarrow> Inl e
     | Inr url \<Rightarrow> get_api_response get loads url)"

text \<open>\<^verbatim>\<open>mutual_fund(self, symbols, sort_order=None, sort_by=None)\<close>\<close>

definition mutual_fund_url :: "'a client_scheme \<Rightarrow> pyval \<Rightarrow> pyval option \<Rightarrow> pyval option \<Rightarrow> error + string" where
  "mutual_fund_url self symbols sort_order sort_by =
    (case API_get ''mutual_fund'' of
       Inl e \<Rightarrow> Inl e
     | Inr api \<Rightarrow>
         (case build_misc_string self
             [(''symbol'', symbols),
              (''sort_order'', default_arg PyNone sort_order),
              (''sort_by'', default_arg PyNone sort_by)] of
            Inl e \<Rightarrow> Inl e
          | Inr misc \<Rightarrow> Inr (api @ misc)))"

definition mutual_fund ::
  "transport \<Rightarrow> 'j decoder \<Rightarrow> 'a client_scheme \<Rightarrow> pyval \<Rightarrow> pyval option \<Rightarrow> pyval option \<Rightarrow> error + 'j" where
  "mutual_fund get loads self symbols sort_order sort_by =
    (case mutual_fund_url self symbols sort_order sort_by of
       Inl e \<Rightarrow> Inl e
     | Inr url \<Rightarrow> get_api_response get loads url)"

text \<open>\<^verbatim>\<open>intraday(self, symbol, interval=1, range=7, sort=None, formatted=None)\<close>\<close>

definition intraday_url :: "'a client_scheme \<Rightarrow> pyval \<Rightarrow> pyval option \<Rightarrow> pyval option \<Rightarrow> pyval option \<Rightarrow> pyval option \<Rightarrow> error + string" where
  "intraday_url self symbol interval range' sort' formatted =
    (case API_get ''intraday'' of
       Inl e \<Rightarrow> Inl e
     | Inr api \<Rightarrow>
         (case build_misc_string self
             [(''symbol'', symbol),
              (''interval'', default_arg (PyInt 1) interval),
              (''range'', default_arg (PyInt 7) range'),
              (''sort'', default_arg PyNone sort'),
              (''formatted'', default_arg PyNone formatted)] of
            Inl e \<Rightarrow> Inl e
          | Inr misc \<Rightarrow> Inr (api @ misc)))"

definition intraday ::
  "transport \<Rightarrow> 'j decoder \<Rightarrow> 'a client_scheme \<Rightarrow> pyval \<Rightarrow> pyval option \<Rightarrow> pyval option \<Rightarrow> pyval option \<Rightarrow> pyval option \<Rightarrow> error + 'j" where
  "intraday get loads self symbol interval range' sort' formatted =
    (case intraday_url self symbol interval range' sort' formatted of
       Inl e \<Rightarrow> Inl e
     | Inr url \<Rightarrow> get_api_response get loads url)"

text \<open>\<^verbatim>\<open>historic_data(self, symbol, date_from=None, date_to=None, sort=None, formatted=None)\<close>\<close>

definition historic_data_url :: "'a client_scheme \<Rightarrow> pyval \<Rightarrow> pyval option \<Rightarrow> pyval option \<Rightarrow> pyval option \<Rightarrow> pyval option \<Rightarrow> error + string" where
  "historic_data_url self symbol date_from date_to sort' formatted =
    (case API_get ''history'' of
       Inl e \<Rightarrow> Inl e
     | Inr api \<Rightarrow>
         (case build_misc_string self
             [(''symbol'', symbol),
              (''date_from'', default_arg PyNone date_from),
              (''date_to'', default_arg PyNone date_to),
              (''sort'', default_arg PyNone sort'),
              (''formatted'', default_arg PyNone formatted)] of
            Inl e \<Rightarrow> Inl e
          | Inr misc \<Rightarrow> Inr (api @ misc)))"

definition historic_data ::
  "transport \<Rightarrow> 'j decoder \<Rightarrow> 'a client_scheme \<Rightarrow> pyval \<Rightarrow> pyval option \<Rightarrow> pyval option \<Rightarrow> pyval option \<Rightarrow> pyval option \<Rightarrow> error + 'j" where
  "historic_data get loads self symbol date_from date_to sort' formatted =
    (case historic_data_url self symbol date_from date_to sort' formatted of
       Inl e \<Rightarrow> Inl e
     | Inr url \<Rightarrow> get_api_response get loads url)"

text \<open>\<^verbatim>\<open>historic_multi_single_day(self, symbol, date, sort=None, formatted=None)\<close>\<close>

definition historic_multi_single_day_url :: "'a client_scheme \<Rightarrow> pyval \<Rightarrow> pyval \<Rightarrow> pyval option \<Rightarrow> pyval option \<Rightarrow> error + string" where
  "historic_multi_single_day_url self symbol date sort' formatted =
    (case API_get ''history_msd'' of
       Inl e \<Rightarrow> Inl e
     | Inr api \<Rightarrow>
         (case build_misc_string self
             [(''symbol'', symbol),
              (''date'', date),
              (''sort'', default_arg PyNone sort'),
              (''formatted'', default_arg PyNone formatted)] of
            Inl e \<Rightarrow> Inl e
          | Inr misc \<Rightarrow> Inr (api @ misc)))"

definition historic_multi_single_day ::
  "transport \<Rightarrow> 'j decoder \<Rightarrow> 'a client_scheme \<Rightarrow> pyval \<Rightarrow> pyval \<Rightarrow> pyval option \<Rightarrow> pyval option \<Rightarrow> error + 'j" where
  "historic_multi_single_day get loads self symbol date sort' formatted =
    (case historic_multi_single_day_url self symbol date sort' formatted of
       Inl e \<Rightarrow> Inl e
     | Inr url \<Rightarrow> get_api_response get loads url)"

text \<open>\<^verbatim>\<open>forex(self, base)\<close>\<close>

definition forex_url :: "'a client_scheme \<Rightarrow> pyval \<Rightarrow> error + string" where
  "forex_url self base =
    (case API_get ''forex'' of
       Inl e \<Rightarrow> Inl e
     | Inr api \<Rightarrow>
         (case build_misc_string self
             [(''base'', base)] of
            Inl e \<Rightarrow> Inl e
          | Inr misc \<Rightarrow> Inr (api @ misc)))"

definition forex ::
  "transport \<Rightarrow> 'j decoder \<Rightarrow> 'a client_scheme \<Rightarrow> pyval \<Rightarrow> error + 'j" where
  "forex get loads self base =
    (case forex_url self base of
       Inl e \<Rightarrow> Inl e
     | Inr url \<Rightarrow> get_api_response get loads url)"

text \<open>\<^verbatim>\<open>forex_historic(self, base, convert_to, sort=None, formatted=None)\<close>\<close>

definition forex_historic_url :: "'a client_scheme \<Rightarrow> pyval \<Rightarrow> pyval \<Rightarrow> pyval option \<Rightarrow> pyval option \<Rightarrow> error + string" where
  "forex_historic_url self base convert_to sort' formatted =
    (case API_get ''forex_history'' of
       Inl e \<Rightarrow> Inl e
     | Inr api \<Rightarrow>
         (case build_misc_string self
             [(''base'', base),
              (''convert_to'', convert_to),
              (''sort'', default_arg PyNone sort'),
              (''formatted'', default_arg PyNone formatted)] of
            Inl e \<Rightarrow> Inl e
          | Inr misc \<Rightarrow> Inr (api @ misc)))"

definition forex_historic ::
  "transport \<Rightarrow> 'j decoder \<Rightarrow> 'a client_scheme \<Rightarrow> pyval \<Rightarrow> pyval \<Rightarrow> pyval option \<Rightarrow> pyval option \<Rightarrow> error + 'j" where
  "forex_historic get loads self base convert_to sort' formatted =
    (case forex_historic_url self base convert_to sort' formatted of
       Inl e \<Rightarrow> Inl e
     | Inr url \<Rightarrow> get_api_response get loads url)"

text \<open>\<^verbatim>\<open>forex_historic_single_day(self, base, date, formatted=None)\<close>\<close>

definition forex_historic_single_day_url :: "'a client_scheme \<Rightarrow> pyval \<Rightarrow> pyval \<Rightarrow> pyval option \<Rightarrow> error + string" where
  "forex_historic_single_day_url self base date formatted =
    (case API_get ''forex_single_day'' of
       Inl e \<Rightarrow> Inl e
     | Inr api \<Rightarrow>
         (case build_misc_string self
             [(''base'', base),
              (''date'', date),
              (''formatted'', default_arg PyNone formatted)] of
            Inl e \<Rightarrow> Inl e
          | Inr misc \<Rightarrow> Inr (api @ misc)))"

definition forex_historic_single_day ::
  "transport \<Rightarrow> 'j decoder \<Rightarrow> 'a client_scheme \<Rightarrow> pyval \<Rightarrow> pyval \<Rightarrow> pyval option \<Rightarrow> error + 'j" where
  "forex_historic_single_day get loads self base date formatted =
    (case forex_historic_single_day_url self base date formatted of
       Inl e \<Rightarrow> Inl e
     | Inr url \<Rightarrow> get_api_response get loads url)"

text \<open>\<^verbatim>\<open>search(self, search_term, search_by=None, stock_exchange=None, currency=None, limit=None, page=None, sort_by=None, sort_order=None)\<close>\<close>

definition search_url :: "'a client_scheme \<Rightarrow> pyval \<Rightarrow> pyval option \<Rightarrow> pyval option \<Rightarrow> pyval option \<Rightarrow> pyval option \<Rightarrow> pyval option \<Rightarrow> pyval option \<Rightarrow> pyval option \<Rightarrow> error + string" where
  "search_url self search_term search_by stock_exchange currency limit page sort_by sort_order =
    (case API_get ''search'' of
       Inl e \<Rightarrow> Inl e
     | Inr api \<Rightarrow>
         (case build_misc_string self
             [(''search_term'', search_term),
              (''search_by'', default_arg PyNone search_by),
              (''stock_exchange'', default_arg PyNone stock_exchange),
              (''currency'', default_arg PyNone currency),
              (''limit'', default_arg PyNone limit),
              (''page'', default_arg PyNone page),
              (''sort_by'', default_arg PyNone sort_by),
              (''sort_order'', default_arg PyNone sort_order)] of
            Inl e \<Rightarrow> Inl e
          | Inr misc \<Rightarrow> Inr (api @ misc)))"

definition search ::
  "transport \<Rightarrow> 'j decoder \<Rightarrow> 'a client_scheme \<Rightarrow> pyval \<Rightarrow> pyval option \<Rightarrow> pyval option \<Rightarrow> pyval option \<Rightarrow> pyval option \<Rightarrow> pyval option \<Rightarrow> pyval option \<Rightarrow> pyval option \<Rightarrow> error + 'j" where
  "search get loads self search_term search_by stock_exchange currency limit page sort_by sort_order =
    (case search_url self search_term search_by stock_exchange currency limit page sort_by sort_order of
       Inl e \<Rightarrow> Inl e
     | Inr url \<Rightarrow> get_api_response get loads url)"


section \<open>What one argument contributes\<close>

text \<open>
  The contribution of one keyword argument to the query string, in the words of the
  specification: nothing for an absent value, \<^verbatim>\<open>name=value&\<close> for a scalar with
  \<^verbatim>\<open>value\<close> its string form, and \<^verbatim>\<open>name=v1,...,vn&\<close> for a list. The lemma
  \<open>build_loop_fragments\<close> below relates the loop of the source to it.
\<close>

definition fragment :: "string \<times> pyval \<Rightarrow> string" where
  "fragment kv =
    (case kv of (name, value) \<Rightarrow>
       (case value of
          Atom ANone \<Rightarrow> []
        | Atom a \<Rightarrow> name @ ''='' @ str_atom a @ ''&''
        | PyList xs \<Rightarrow> name @ ''='' @ join '','' (map str_atom xs) @ ''&''))"

definition absent :: "string \<times> pyval \<Rightarrow> bool" where
  "absent kv = (snd kv = PyNone)"

section \<open>Test doubles for the two collaborators\<close>

text \<open>
  A transport that answers every URL with the same status and body, as a mocked
  \<^verbatim>\<open>requests.get\<close> does in a test.
\<close>

definition mock_get :: "int \<Rightarrow> string \<Rightarrow> transport" where
  "mock_get status body url = Inr \<lparr>status_code = status, resp_text = body\<rparr>"

text \<open>
  Decoded JSON values, and a decoder that knows the one document \<^verbatim>\<open>{"foo": 1}\<close> and
  rejects every other body. It stands in for \<^verbatim>\<open>json.loads\<close> in closed examples only,
  on that document and on bodies that are not JSON; every general theorem below holds
  for an arbitrary decoder.
\<close>

datatype json =
    JNull
  | JBool bool
  | JInt int
  | JStr string
  | JArr "json list"
  | JObj "(string \<times> json) list"

definition foo_body :: string where
  \<open>foo_body = ''{"foo": 1}''\<close>

definition loads_foo :: "json decoder" where
  "loads_foo body =
    (if body = foo_body then Inr (JObj [(''foo'', JInt 1)]) else Inl JSONDecodeError)"


section \<open>The loop and the fragments\<close>

lemma build_loop_fragments: "build_loop misc kwargs = misc @ concat (map fragment kwargs)"
  by (induction kwargs arbitrary: misc) (auto simp: fragment_def split: pyval.splits atom.splits)

lemma build_misc_string_str:
  "api_key self = PyStr tok \<Longrightarrow>
   build_misc_string self kwargs = Inr (''?'' @ concat (map fragment kwargs) @ ''api_token='' @ tok)"
  by (simp add: build_misc_string_def build_loop_fragments)

lemma build_misc_string_Inr:
  "build_misc_string self kwargs = Inr s \<Longrightarrow>
   \<exists>tok. api_key self = PyStr tok \<and> s = build_loop ''?'' kwargs @ ''api_token='' @ tok"
  by (auto simp: build_misc_string_def split: pyval.splits atom.splits)

lemma build_misc_string_not_str:
  "(\<And>tok. api_key self \<noteq> PyStr tok) \<Longrightarrow> build_misc_string self kwargs = Inl TypeError"
  by (auto simp: build_misc_string_def split: pyval.splits atom.splits)

lemma fragment_None: "fragment (name, PyNone) = []"
  by (simp add: fragment_def)

lemma fragment_empty_iff: "fragment (name, v) = [] \<longleftrightarrow> v = PyNone"
  by (auto simp: fragment_def split: pyval.splits atom.splits)

lemma concat_fragments_absent:
  "list_all absent kwargs \<Longrightarrow> concat (map fragment kwargs) = []"
  by (induction kwargs) (auto simp: absent_def fragment_None)

lemma concat_fragments_filter:
  "concat (map fragment (filter (\<lambda>kv. \<not> absent kv) kwargs)) = concat (map fragment kwargs)"
  by (induction kwargs) (auto simp: absent_def fragment_None)

lemma build_loop_filter:
  "build_loop misc (filter (\<lambda>kv. \<not> absent kv) kwargs) = build_loop misc kwargs"
  by (simp add: build_loop_fragments concat_fragments_filter)

section \<open>The URL of every operation method\<close>

lemma stocks_url_str:
  "api_key self = PyStr tok \<Longrightarrow>
   stocks_url self symbols sort_by sort_order =
     Inr (''https://www.worldtradingdata.com/api/v1/stock?'' @
          fragment (''symbol'', symbols) @
          fragment (''sort_by'', default_arg PyNone sort_by) @
          fragment (''sort_order'', default_arg PyNone sort_order) @
          ''api_token='' @ tok)"
  by (simp add: stocks_url_def API_get_def API_def build_misc_string_str)

lemma mutual_fund_url_str:
  "api_key self = PyStr tok \<Longrightarrow>
   mutual_fund_url self symbols sort_order sort_by =
     Inr (''https://www.worldtradingdata.com/api/v1/mutualfund?'' @
          fragment (''symbol'', symbols) @
          fragment (''sort_order'', default_arg PyNone sort_order) @
          fragment (''sort_by'', default_arg PyNone sort_by) @
          ''api_token='' @ tok)"
  by (simp add: mutual_fund_url_def API_get_def API_def build_misc_string_str)

lemma intraday_url_str:
  "api_key self = PyStr tok \<Longrightarrow>
   intraday_url self symbol interval range' sort' formatted =
     Inr (''https://www.worldtradingdata.com/api/v1/intraday?'' @
          fragment (''symbol'', symbol) @
          fragment (''interval'', default_arg (PyInt 1) interval) @
          fragment (''range'', default_arg (PyInt 7) range') @
          fragment (''sort'', default_arg PyNone sort') @
          fragment (''formatted'', default_arg PyNone formatted) @
          ''api_token='' @ tok)"
  by (simp add: intraday_url_def API_get_def API_def build_misc_string_str)

lemma historic_data_url_str:
  "api_key self = PyStr tok \<Longrightarrow>
   historic_data_url self symbol date_from date_to sort' formatted =
     Inr (''https://www.worldtradingdata.com/api/v1/history?'' @
          fragment (''symbol'', symbol) @
          fragment (''date_from'', default_arg PyNone date_from) @
          fragment (''date_to'', default_arg PyNone date_to) @
          fragment (''sort'', default_arg PyNone sort') @
          fragment (''formatted'', default_arg PyNone formatted) @
          ''api_token='' @ tok)"
  by (simp add: historic_data_url_def API_get_def API_def build_misc_string_str)

lemma historic_multi_single_day_url_str:
  "api_key self = PyStr tok \<Longrightarrow>
   historic_multi_single_day_url self symbol date sort' formatted =
     Inr (''https://www.worldtradingdata.com/api/v1/history_multi_single_day?'' @
          fragment (''symbol'', symbol) @
          fragment (''date'', date) @
          fragment (''sort'', default_arg PyNone sort') @
          fragment (''formatted'', default_arg PyNone formatted) @
          ''api_token='' @ tok)"
  by (simp add: historic_multi_single_day_url_def API_get_def API_def build_misc_string_str)

lemma forex_url_str:
  "api_key self = PyStr tok \<Longrightarrow>
   forex_url self base =
     Inr (''https://www.worldtradingdata.com/api/v1/forex?'' @
          fragment (''base'', base) @
          ''api_token='' @ tok)"
  by (simp add: forex_url_def API_get_def API_def build_misc_string_str)

lemma forex_historic_url_str:
  "api_key self = PyStr tok \<Longrightarrow>
   forex_historic_url self base convert_to sort' formatted =
     Inr (''https://www.worldtradingdata.com/api/v1/forex_history?'' @
          fragment (''base'', base) @
          fragment (''convert_to'', convert_to) @
          fragment (''sort'', default_arg PyNone sort') @
          fragment (''formatted'', default_arg PyNone formatted) @
          ''api_token='' @ tok)"
  by (simp add: forex_historic_url_def API_get_def API_def build_misc_string_str)

lemma forex_historic_single_day_url_str:
  "api_key self = PyStr tok \<Longrightarrow>
   forex_historic_single_day_url self base date formatted =
     Inr (''https://www.worldtradingdata.com/api/v1/forex_single_day?'' @
          fragment (''base'', base) @
          fragment (''date'', date) @
          fragment (''formatted'', default_arg PyNone formatted) @
          ''api_token='' @ tok)"
  by (simp add: forex_historic_single_day_url_def API_get_def API_def build_misc_string_str)

lemma search_url_str:
  "api_key self = PyStr tok \<Longrightarrow>
   search_url self search_term search_by stock_exchange currency limit page sort_by sort_order =
     Inr (''https://www.worldtradingdata.com/api/v1/stock_search?'' @
          fragment (''search_term'', search_term) @
          fragment (''search_by'', default_arg PyNone search_by) @
          fragment (''stock_exchange'', default_arg PyNone stock_exchange) @
          fragment (''currency'', default_arg PyNone currency) @
          fragment (''limit'', default_arg PyNone limit) @
          fragment (''page'', default_arg PyNone page) @
          fragment (''sort_by'', default_arg PyNone sort_by) @
          fragment (''sort_order'', default_arg PyNone sort_order) @
          ''api_token='' @ tok)"
  by (simp add: search_url_def API_get_def API_def build_misc_string_str)


section \<open>Properties of the query string builder\<close>

text \<open>
  Claim C1. Whatever the keyword arguments, a query string returned by the builder
  starts with \<^verbatim>\<open>?\<close> and ends with \<^verbatim>\<open>api_token=\<close> followed by the stored token, with
  nothing after it. The builder returns such a string for every token that is a string;
  it returns a string for no other token; and when every argument is absent the result
  is \<^verbatim>\<open>?api_token=\<close> followed by the token.
\<close>

theorem build_misc_string_token_last:
  "(\<forall>tok. api_key self = PyStr tok \<longrightarrow>
      (\<exists>mid. build_misc_string self kwargs = Inr (''?'' @ mid @ ''api_token='' @ tok)))
   \<and> (\<forall>s. build_misc_string self kwargs = Inr s \<longrightarrow>
      (\<exists>tok mid. api_key self = PyStr tok \<and> s = ''?'' @ mid @ ''api_token='' @ tok))
   \<and> (\<forall>tok. api_key self = PyStr tok \<and> list_all absent kwargs \<longrightarrow>
      build_misc_string self kwargs = Inr (''?api_token='' @ tok))"
proof (intro conjI allI impI)
  fix tok assume "api_key self = PyStr tok"
  then show "\<exists>mid. build_misc_string self kwargs = Inr (''?'' @ mid @ ''api_token='' @ tok)"
    using build_misc_string_str [of self tok kwargs] by blast
next
  fix s assume "build_misc_string self kwargs = Inr s"
  then obtain tok where t: "api_key self = PyStr tok"
    and s: "s = build_loop ''?'' kwargs @ ''api_token='' @ tok"
    using build_misc_string_Inr by blast
  from s have "s = ''?'' @ concat (map fragment kwargs) @ ''api_token='' @ tok"
    by (simp add: build_loop_fragments)
  with t show "\<exists>tok mid. api_key self = PyStr tok \<and> s = ''?'' @ mid @ ''api_token='' @ tok"
    by blast
next
  fix tok assume "api_key self = PyStr tok \<and> list_all absent kwargs"
  then show "build_misc_string self kwargs = Inr (''?api_token='' @ tok)"
    by (simp add: build_misc_string_str concat_fragments_absent)
qed

theorem build_misc_string_token_last_witness:
  "(\<exists>mid. build_misc_string \<lparr>api_key = PyStr ''T''\<rparr>
      [(''symbol'', PyStr ''AAPL''), (''sort_by'', PyNone)] = Inr (''?'' @ mid @ ''api_token=T''))
   \<and> build_misc_string \<lparr>api_key = PyStr ''T''\<rparr>
      [(''symbol'', PyStr ''AAPL''), (''sort_by'', PyNone)] = Inr ''?symbol=AAPL&api_token=T''
   \<and> build_misc_string \<lparr>api_key = PyStr ''T''\<rparr>
      [(''sort_by'', PyNone), (''sort_order'', PyNone)] = Inr ''?api_token=T''"
proof -
  let ?c = "\<lparr>api_key = PyStr ''T''\<rparr>"
  have k: "api_key ?c = PyStr ''T''" by simp
  have a: "list_all absent [(''sort_by'', PyNone), (''sort_order'', PyNone)]"
    by (simp add: absent_def)
  have v: "build_misc_string ?c [(''symbol'', PyStr ''AAPL''), (''sort_by'', PyNone)]
      = Inr ''?symbol=AAPL&api_token=T''"
    by (simp add: build_misc_string_def)
  from build_misc_string_token_last [of ?c "[(''symbol'', PyStr ''AAPL''), (''sort_by'', PyNone)]"] k
  have 1: "\<exists>mid. build_misc_string ?c [(''symbol'', PyStr ''AAPL''), (''sort_by'', PyNone)]
      = Inr (''?'' @ mid @ ''api_token='' @ ''T'')"
    by blast
  from build_misc_string_token_last [of ?c "[(''sort_by'', PyNone), (''sort_order'', PyNone)]"] k a
  have 2: "build_misc_string ?c [(''sort_by'', PyNone), (''sort_order'', PyNone)]
      = Inr (''?api_token='' @ ''T'')"
    by blast
  from 1 2 v show ?thesis by simp
qed

text \<open>
  Claim C2. A list-valued argument \<^verbatim>\<open>name=[a, b, c]\<close> makes the loop append exactly
  \<^verbatim>\<open>name=a,b,c&\<close>, the string forms of the elements in list order with commas between
  them; for a list of any length it appends \<^verbatim>\<open>name=\<close>, the comma-join of the string
  forms and \<^verbatim>\<open>&\<close>. As the only argument of a call the list gives the query string
  \<^verbatim>\<open>?name=a,b,c&api_token=<token>\<close>.
\<close>

theorem build_loop_list_fragment:
  "build_loop misc ((name, PyList [a, b, c]) # kwargs) =
     build_loop (misc @ name @ ''='' @ str_atom a @ '','' @ str_atom b @ '','' @ str_atom c @ ''&'')
       kwargs
   \<and> build_loop misc ((name, PyList xs) # kwargs) =
     build_loop (misc @ name @ ''='' @ join '','' (map str_atom xs) @ ''&'') kwargs
   \<and> build_misc_string \<lparr>api_key = PyStr tok\<rparr> [(name, PyList [a, b, c])] =
     Inr (''?'' @ name @ ''='' @ str_atom a @ '','' @ str_atom b @ '','' @ str_atom c @
          ''&api_token='' @ tok)"
  by (simp add: build_misc_string_def)

text \<open>
  Claim C9. The loop skips an argument exactly when its value is \<^verbatim>\<open>None\<close>. The empty
  string and the empty list are not skipped: each makes the loop append \<^verbatim>\<open>name=&\<close>,
  so as the only argument of a call each gives \<^verbatim>\<open>?name=&api_token=<token>\<close>.
\<close>

theorem only_None_is_skipped:
  "build_loop misc ((name, PyStr []) # kwargs) = build_loop (misc @ name @ ''=&'') kwargs
   \<and> build_loop misc ((name, PyList []) # kwargs) = build_loop (misc @ name @ ''=&'') kwargs
   \<and> (build_loop misc ((name, v) # kwargs) = build_loop misc kwargs) = (v = PyNone)
   \<and> build_misc_string \<lparr>api_key = PyStr tok\<rparr> [(name, PyStr [])] =
       Inr (''?'' @ name @ ''=&api_token='' @ tok)
   \<and> build_misc_string \<lparr>api_key = PyStr tok\<rparr> [(name, PyList [])] =
       Inr (''?'' @ name @ ''=&api_token='' @ tok)"
proof -
  have "(build_loop misc ((name, v) # kwargs) = build_loop misc kwargs) = (v = PyNone)"
    using fragment_empty_iff [of name v] by (simp add: build_loop_fragments)
  then show ?thesis by (simp add: build_misc_string_def)
qed


section \<open>Properties of construction and of the credential setter\<close>

text \<open>
  Claim C4. Constructing a client without a token, with \<^verbatim>\<open>None\<close> or with the empty
  string fails with \<^verbatim>\<open>APIKeyNotSet\<close>; constructing it with a non-empty string
  succeeds and stores that string. For a token of any type the constructor tests its
  truth value: a true one is stored, a false one raises \<^verbatim>\<open>APIKeyNotSet\<close>, and there
  is no third outcome.
\<close>

theorem WTDApi_init_outcomes:
  "WTDApi_init None = Inl (APIKeyNotSet APIKeyNotSet_message)
   \<and> WTDApi_init (Some PyNone) = Inl (APIKeyNotSet APIKeyNotSet_message)
   \<and> WTDApi_init (Some (PyStr [])) = Inl (APIKeyNotSet APIKeyNotSet_message)
   \<and> (tok \<noteq> [] \<longrightarrow> WTDApi_init (Some (PyStr tok)) = Inr \<lparr>api_key = PyStr tok\<rparr>)
   \<and> (truthy v \<longrightarrow> WTDApi_init (Some v) = Inr \<lparr>api_key = v\<rparr>)
   \<and> (\<not> truthy v \<longrightarrow> WTDApi_init (Some v) = Inl (APIKeyNotSet APIKeyNotSet_message))
   \<and> (WTDApi_init arg = Inl (APIKeyNotSet APIKeyNotSet_message)
        \<or> WTDApi_init arg = Inr \<lparr>api_key = default_arg PyNone arg\<rparr>)"
  by (simp add: WTDApi_init_def default_arg_def Let_def)

theorem WTDApi_init_outcomes_witness:
  "WTDApi_init (Some (PyStr ''demo'')) = Inr \<lparr>api_key = PyStr ''demo''\<rparr>
   \<and> WTDApi_init (Some (PyList [AStr ''demo''])) = Inr \<lparr>api_key = PyList [AStr ''demo'']\<rparr>
   \<and> WTDApi_init (Some (PyInt 0)) = Inl (APIKeyNotSet APIKeyNotSet_message)"
  using WTDApi_init_outcomes [of "''demo''" "PyList [AStr ''demo'']"]
    WTDApi_init_outcomes [of "''demo''" "PyInt 0"]
  by simp

text \<open>
  Claim C8. The setter writes the token field and nothing else: the field holds the
  new value and every other field of the client is as before. A query string built
  on the client after the call ends with \<^verbatim>\<open>api_token=\<close> and the new token, whatever
  the client held before, and so does the URL of every operation method. A string
  built before the call carries the old token and stays as it is: it is a value of
  its own, and the setter, which takes the client and the new token only, has no
  access to it.
\<close>

theorem set_api_key_frame:
  "api_key (set_api_key self new_key) = new_key
   \<and> client.more (set_api_key self new_key) = client.more self
   \<and> build_misc_string (set_api_key self (PyStr tok)) kwargs =
       Inr (build_loop ''?'' kwargs @ ''api_token='' @ tok)
   \<and> build_misc_string (set_api_key self new_key) kwargs =
       build_misc_string (set_api_key other new_key) kwargs
   \<and> (api_key self = PyStr old \<longrightarrow>
       (let before = build_misc_string self kwargs;
            self' = set_api_key self (PyStr tok);
            after = build_misc_string self' kwargs'
        in before = Inr (build_loop ''?'' kwargs @ ''api_token='' @ old)
           \<and> after = Inr (build_loop ''?'' kwargs' @ ''api_token='' @ tok)))
   \<and> (\<exists>pre. stocks_url (set_api_key self (PyStr tok)) symbols sort_by sort_order = Inr (pre @ ''api_token='' @ tok))
   \<and> (\<exists>pre. mutual_fund_url (set_api_key self (PyStr tok)) symbols sort_order sort_by = Inr (pre @ ''api_token='' @ tok))
   \<and> (\<exists>pre. intraday_url (set_api_key self (PyStr tok)) symbol interval range' sort' formatted = Inr (pre @ ''api_token='' @ tok))
   \<and> (\<exists>pre. historic_data_url (set_api_key self (PyStr tok)) symbol date_from date_to sort' formatted = Inr (pre @ ''api_token='' @ tok))
   \<and> (\<exists>pre. historic_multi_single_day_url (set_api_key self (PyStr tok)) symbol date sort' formatted = Inr (pre @ ''api_token='' @ tok))
   \<and> (\<exists>pre. forex_url (set_api_key self (PyStr tok)) base = Inr (pre @ ''api_token='' @ tok))
   \<and> (\<exists>pre. forex_historic_url (set_api_key self (PyStr tok)) base convert_to sort' formatted = Inr (pre @ ''api_token='' @ tok))
   \<and> (\<exists>pre. forex_historic_single_day_url (set_api_key self (PyStr tok)) base date formatted = Inr (pre @ ''api_token='' @ tok))
   \<and> (\<exists>pre. search_url (set_api_key self (PyStr tok)) search_term search_by stock_exchange currency limit page sort_by sort_order = Inr (pre @ ''api_token='' @ tok))"
proof -
  have k: "api_key (set_api_key self (PyStr tok)) = PyStr tok"
    by (simp add: set_api_key_def)
  have b0: "api_key (set_api_key self new_key) = new_key"
    by (simp add: set_api_key_def build_misc_string_def Let_def)
  have b1: "client.more (set_api_key self new_key) = client.more self"
    by (simp add: set_api_key_def build_misc_string_def Let_def)
  have b2: "build_misc_string (set_api_key self (PyStr tok)) kwargs =
       Inr (build_loop ''?'' kwargs @ ''api_token='' @ tok)"
    by (simp add: set_api_key_def build_misc_string_def Let_def)
  have b3: "build_misc_string (set_api_key self new_key) kwargs =
       build_misc_string (set_api_key other new_key) kwargs"
    by (simp add: set_api_key_def build_misc_string_def Let_def)
  have b4: "(api_key self = PyStr old \<longrightarrow>
       (let before = build_misc_string self kwargs;
            self' = set_api_key self (PyStr tok);
            after = build_misc_string self' kwargs'
        in before = Inr (build_loop ''?'' kwargs @ ''api_token='' @ old)
           \<and> after = Inr (build_loop ''?'' kwargs' @ ''api_token='' @ tok)))"
    by (simp add: set_api_key_def build_misc_string_def Let_def)
  have u0: "(\<exists>pre. stocks_url (set_api_key self (PyStr tok)) symbols sort_by sort_order = Inr (pre @ ''api_token='' @ tok))"
    by (rule exI [of _ "''https://www.worldtradingdata.com/api/v1/stock?'' @
        fragment (''symbol'', symbols) @
        fragment (''sort_by'', default_arg PyNone sort_by) @
        fragment (''sort_order'', default_arg PyNone sort_order)"])
       (simp add: stocks_url_str [OF k])
  have u1: "(\<exists>pre. mutual_fund_url (set_api_key self (PyStr tok)) symbols sort_order sort_by = Inr (pre @ ''api_token='' @ tok))"
    by (rule exI [of _ "''https://www.worldtradingdata.com/api/v1/mutualfund?'' @
        fragment (''symbol'', symbols) @
        fragment (''sort_order'', default_arg PyNone sort_order) @
        fragment (''sort_by'', default_arg PyNone sort_by)"])
       (simp add: mutual_fund_url_str [OF k])
  have u2: "(\<exists>pre. intraday_url (set_api_key self (PyStr tok)) symbol interval range' sort' formatted = Inr (pre @ ''api_token='' @ tok))"
    by (rule exI [of _ "''https://www.worldtradingdata.com/api/v1/intraday?'' @
        fragment (''symbol'', symbol) @
        fragment (''interval'', default_arg (PyInt 1) interval) @
        fragment (''range'', default_arg (PyInt 7) range') @
        fragment (''sort'', default_arg PyNone sort') @
        fragment (''formatted'', default_arg PyNone formatted)"])
       (simp add: intraday_url_str [OF k])
  have u3: "(\<exists>pre. historic_data_url (set_api_key self (PyStr tok)) symbol date_from date_to sort' formatted = Inr (pre @ ''api_token='' @ tok))"
    by (rule exI [of _ "''https://www.worldtradingdata.com/api/v1/history?'' @
        fragment (''symbol'', symbol) @
        fragment (''date_from'', default_arg PyNone date_from) @
        fragment (''date_to'', default_arg PyNone date_to) @
        fragment (''sort'', default_arg PyNone sort') @
        fragment (''formatted'', default_arg PyNone formatted)"])
       (simp add: historic_data_url_str [OF k])
  have u4: "(\<exists>pre. historic_multi_single_day_url (set_api_key self (PyStr tok)) symbol date sort' formatted = Inr (pre @ ''api_token='' @ tok))"
    by (rule exI [of _ "''https://www.worldtradingdata.com/api/v1/history_multi_single_day?'' @
        fragment (''symbol'', symbol) @
        fragment (''date'', date) @
        fragment (''sort'', default_arg PyNone sort') @
        fragment (''formatted'', default_arg PyNone formatted)"])
       (simp add: historic_multi_single_day_url_str [OF k])
  have u5: "(\<exists>pre. forex_url (set_api_key self (PyStr tok)) base = Inr (pre @ ''api_token='' @ tok))"
    by (rule exI [of _ "''https://www.worldtradingdata.com/api/v1/forex?'' @
        fragment (''base'', base)"])
       (simp add: forex_url_str [OF k])
  have u6: "(\<exists>pre. forex_historic_url (set_api_key self (PyStr tok)) base convert_to sort' formatted = Inr (pre @ ''api_token='' @ tok))"
    by (rule exI [of _ "''https://www.worldtradingdata.com/api/v1/forex_history?'' @
        fragment (''base'', base) @
        fragment (''convert_to'', convert_to) @
        fragment (''sort'', default_arg PyNone sort') @
        fragment (''formatted'', default_arg PyNone formatted)"])
       (simp add: forex_historic_url_str [OF k])
  have u7: "(\<exists>pre. forex_historic_single_day_url (set_api_key self (PyStr tok)) base date formatted = Inr (pre @ ''api_token='' @ tok))"
    by (rule exI [of _ "''https://www.worldtradingdata.com/api/v1/forex_single_day?'' @
        fragment (''base'', base) @
        fragment (''date'', date) @
        fragment (''formatted'', default_arg PyNone formatted)"])
       (simp add: forex_historic_single_day_url_str [OF k])
  have u8: "(\<exists>pre. search_url (set_api_key self (PyStr tok)) search_term search_by stock_exchange currency limit page sort_by sort_order = Inr (pre @ ''api_token='' @ tok))"
    by (rule exI [of _ "''https://www.worldtradingdata.com/api/v1/stock_search?'' @
        fragment (''search_term'', search_term) @
        fragment (''search_by'', default_arg PyNone search_by) @
        fragment (''stock_exchange'', default_arg PyNone stock_exchange) @
        fragment (''currency'', default_arg PyNone currency) @
        fragment (''limit'', default_arg PyNone limit) @
        fragment (''page'', default_arg PyNone page) @
        fragment (''sort_by'', default_arg PyNone sort_by) @
        fragment (''sort_order'', default_arg PyNone sort_order)"])
       (simp add: search_url_str [OF k])
  show ?thesis
    by (intro conjI; (rule b0 b1 b2 b3 b4 u0 u1 u2 u3 u4 u5 u6 u7 u8))
qed

theorem set_api_key_frame_witness:
  "build_misc_string \<lparr>api_key = PyStr ''OLD''\<rparr> [(''base'', PyStr ''USD'')] =
     Inr ''?base=USD&api_token=OLD''
   \<and> build_misc_string (set_api_key \<lparr>api_key = PyStr ''OLD''\<rparr> (PyStr ''NEW''))
       [(''base'', PyStr ''EUR'')] = Inr ''?base=EUR&api_token=NEW''"
proof -
  have h: "api_key \<lparr>api_key = PyStr ''OLD''\<rparr> = PyStr ''OLD''"
    by simp
  note t = set_api_key_frame [where self = "\<lparr>api_key = PyStr ''OLD''\<rparr>" and old = "''OLD''"
      and tok = "''NEW''" and kwargs = "[(''base'', PyStr ''USD'')]"
      and kwargs' = "[(''base'', PyStr ''EUR'')]",
      THEN conjunct2, THEN conjunct2, THEN conjunct2, THEN conjunct2, THEN conjunct1,
      THEN mp, OF h]
  then show ?thesis
    by (simp add: Let_def)
qed

text \<open>
  Claim C10. The setter validates nothing: it stores the empty string, and
  \<^verbatim>\<open>None\<close>, as it stores any value, although the constructor rejects both with
  \<^verbatim>\<open>APIKeyNotSet\<close>. On a client holding the empty string every query string ends with
  \<^verbatim>\<open>api_token=\<close> and nothing after it. On a client holding \<^verbatim>\<open>None\<close> the builder
  returns no string at all: the concatenation raises \<^verbatim>\<open>TypeError\<close>.
\<close>

theorem set_api_key_accepts_empty:
  "api_key (set_api_key self (PyStr [])) = PyStr []
   \<and> api_key (set_api_key self PyNone) = PyNone
   \<and> WTDApi_init (Some (PyStr [])) = Inl (APIKeyNotSet APIKeyNotSet_message)
   \<and> WTDApi_init (Some PyNone) = Inl (APIKeyNotSet APIKeyNotSet_message)
   \<and> build_misc_string (set_api_key self (PyStr [])) kwargs =
       Inr (build_loop ''?'' kwargs @ ''api_token='')
   \<and> build_misc_string (set_api_key self PyNone) kwargs = Inl TypeError"
  by (simp add: set_api_key_def build_misc_string_def WTDApi_init_def default_arg_def Let_def)


section \<open>Properties of the operation methods\<close>

text \<open>
  Claim C3, as the code has it. An argument whose value is \<^verbatim>\<open>None\<close> contributes
  nothing to the query string, neither its name nor an empty \<^verbatim>\<open>name=\<close>: the loop
  passes over it, and the builder gives the same result with such arguments deleted.
  \<^verbatim>\<open>None\<close> is what every optional argument is bound to when the call leaves it out,
  except \<^verbatim>\<open>interval\<close> and \<^verbatim>\<open>range\<close> of \<^verbatim>\<open>intraday\<close>, whose defaults 1 and 7
  contribute \<^verbatim>\<open>interval=1&\<close> and \<^verbatim>\<open>range=7&\<close>. On a client holding a string token the
  URL of every operation method is its base URL, \<^verbatim>\<open>?\<close>, the contribution of each
  argument in the order of the call, and \<^verbatim>\<open>api_token=\<close> with the token.
\<close>

theorem None_argument_contributes_nothing:
  assumes "api_key self = PyStr tok"
  shows "fragment (name, PyNone) = []
   \<and> fragment (name, default_arg PyNone None) = []
   \<and> build_loop misc ((name, PyNone) # kwargs) = build_loop misc kwargs
   \<and> build_misc_string self (filter (\<lambda>kv. \<not> absent kv) kwargs) = build_misc_string self kwargs
   \<and> fragment (''interval'', default_arg (PyInt 1) None) = ''interval=1&''
   \<and> fragment (''range'', default_arg (PyInt 7) None) = ''range=7&''
   \<and> stocks_url self symbols sort_by sort_order =
       Inr (''https://www.worldtradingdata.com/api/v1/stock?'' @
            fragment (''symbol'', symbols) @
            fragment (''sort_by'', default_arg PyNone sort_by) @
            fragment (''sort_order'', default_arg PyNone sort_order) @
            ''api_token='' @ tok)
   \<and> mutual_fund_url self symbols sort_order sort_by =
       Inr (''https://www.worldtradingdata.com/api/v1/mutualfund?'' @
            fragment (''symbol'', symbols) @
            fragment (''sort_order'', default_arg PyNone sort_order) @
            fragment (''sort_by'', default_arg PyNone sort_by) @
            ''api_token='' @ tok)
   \<and> intraday_url self symbol interval range' sort' formatted =
       Inr (''https://www.worldtradingdata.com/api/v1/intraday?'' @
            fragment (''symbol'', symbol) @
            fragment (''interval'', default_arg (PyInt 1) interval) @
            fragment (''range'', default_arg (PyInt 7) range') @
            fragment (''sort'', default_arg PyNone sort') @
            fragment (''formatted'', default_arg PyNone formatted) @
            ''api_token='' @ tok)
   \<and> historic_data_url self symbol date_from date_to sort' formatted =
       Inr (''https://www.worldtradingdata.com/api/v1/history?'' @
            fragment (''symbol'', symbol) @
            fragment (''date_from'', default_arg PyNone date_from) @
            fragment (''date_to'', default_arg PyNone date_to) @
            fragment (''sort'', default_arg PyNone sort') @
            fragment (''formatted'', default_arg PyNone formatted) @
            ''api_token='' @ tok)
   \<and> historic_multi_single_day_url self symbol date sort' formatted =
       Inr (''https://www.worldtradingdata.com/api/v1/history_multi_single_day?'' @
            fragment (''symbol'', symbol) @
            fragment (''date'', date) @
            fragment (''sort'', default_arg PyNone sort') @
            fragment (''formatted'', default_arg PyNone formatted) @
            ''api_token='' @ tok)
   \<and> forex_url self base =
       Inr (''https://www.worldtradingdata.com/api/v1/forex?'' @
            fragment (''base'', base) @
            ''api_token='' @ tok)
   \<and> forex_historic_url self base convert_to sort' formatted =
       Inr (''https://www.worldtradingdata.com/api/v1/forex_history?'' @
            fragment (''base'', base) @
            fragment (''convert_to'', convert_to) @
            fragment (''sort'', default_arg PyNone sort') @
            fragment (''formatted'', default_arg PyNone formatted) @
            ''api_token='' @ tok)
   \<and> forex_historic_single_day_url self base date formatted =
       Inr (''https://www.worldtradingdata.com/api/v1/forex_single_day?'' @
            fragment (''base'', base) @
            fragment (''date'', date) @
            fragment (''formatted'', default_arg PyNone formatted) @
            ''api_token='' @ tok)
   \<and> search_url self search_term search_by stock_exchange currency limit page sort_by sort_order =
       Inr (''https://www.worldtradingdata.com/api/v1/stock_search?'' @
            fragment (''search_term'', search_term) @
            fragment (''search_by'', default_arg PyNone search_by) @
            fragment (''stock_exchange'', default_arg PyNone stock_exchange) @
            fragment (''currency'', default_arg PyNone currency) @
            fragment (''limit'', default_arg PyNone limit) @
            fragment (''page'', default_arg PyNone page) @
            fragment (''sort_by'', default_arg PyNone sort_by) @
            fragment (''sort_order'', default_arg PyNone sort_order) @
            ''api_token='' @ tok)"
proof -
  note urls = stocks_url_str [OF assms]
    mutual_fund_url_str [OF assms]
    intraday_url_str [OF assms]
    historic_data_url_str [OF assms]
    historic_multi_single_day_url_str [OF assms]
    forex_url_str [OF assms]
    forex_historic_url_str [OF assms]
    forex_historic_single_day_url_str [OF assms]
    search_url_str [OF assms]
  have f: "fragment (name, PyNone) = []" "fragment (name, default_arg PyNone None) = []"
    by (simp_all add: fragment_None default_arg_def)
  have d: "fragment (''interval'', default_arg (PyInt 1) None) = ''interval=1&''"
    "fragment (''range'', default_arg (PyInt 7) None) = ''range=7&''"
    by (simp_all add: fragment_def default_arg_def str_int_def str_nat.simps digit_char_def)
  have l: "build_loop misc ((name, PyNone) # kwargs) = build_loop misc kwargs"
    by simp
  have b: "build_misc_string self (filter (\<lambda>kv. \<not> absent kv) kwargs) = build_misc_string self kwargs"
    by (simp add: build_misc_string_def build_loop_filter)
  show ?thesis
    by (intro conjI; (rule f d l b urls))
qed

theorem None_argument_contributes_nothing_witness:
  "stocks_url \<lparr>api_key = PyStr ''T''\<rparr> (PyStr ''AAPL'') None None =
       Inr ''https://www.worldtradingdata.com/api/v1/stock?symbol=AAPL&api_token=T''
   \<and> mutual_fund_url \<lparr>api_key = PyStr ''T''\<rparr> (PyList [AStr ''AAAAX'', AStr ''AAADX'']) None None =
       Inr ''https://www.worldtradingdata.com/api/v1/mutualfund?symbol=AAAAX,AAADX&api_token=T''
   \<and> intraday_url \<lparr>api_key = PyStr ''T''\<rparr> (PyStr ''AAPL'') None None None None =
       Inr ''https://www.worldtradingdata.com/api/v1/intraday?symbol=AAPL&interval=1&range=7&api_token=T''
   \<and> historic_data_url \<lparr>api_key = PyStr ''T''\<rparr> (PyStr ''AAPL'') None None None None =
       Inr ''https://www.worldtradingdata.com/api/v1/history?symbol=AAPL&api_token=T''
   \<and> historic_multi_single_day_url \<lparr>api_key = PyStr ''T''\<rparr> (PyStr ''AAPL'') (PyStr ''2019-01-02'') None None =
       Inr ''https://www.worldtradingdata.com/api/v1/history_multi_single_day?symbol=AAPL&date=2019-01-02&api_token=T''
   \<and> forex_url \<lparr>api_key = PyStr ''T''\<rparr> (PyStr ''USD'') =
       Inr ''https://www.worldtradingdata.com/api/v1/forex?base=USD&api_token=T''
   \<and> forex_historic_url \<lparr>api_key = PyStr ''T''\<rparr> (PyStr ''USD'') (PyStr ''EUR'') None None =
       Inr ''https://www.worldtradingdata.com/api/v1/forex_history?base=USD&convert_to=EUR&api_token=T''
   \<and> forex_historic_single_day_url \<lparr>api_key = PyStr ''T''\<rparr> (PyStr ''USD'') (PyStr ''2019-01-02'') None =
       Inr ''https://www.worldtradingdata.com/api/v1/forex_single_day?base=USD&date=2019-01-02&api_token=T''
   \<and> search_url \<lparr>api_key = PyStr ''T''\<rparr> (PyStr ''apple'') None None None None None None None =
       Inr ''https://www.worldtradingdata.com/api/v1/stock_search?search_term=apple&api_token=T''"
proof -
  have h: "api_key \<lparr>api_key = PyStr ''T''\<rparr> = PyStr ''T''"
    by simp
  note t = None_argument_contributes_nothing [OF h]
  show ?thesis
    by (simp add: t fragment_def default_arg_def str_int_def str_nat.simps digit_char_def)
qed

text \<open>
  Claim C3 as stated, for every operation method and every optional argument left
  unset, fails on \<^verbatim>\<open>intraday\<close>: with \<^verbatim>\<open>interval\<close> and \<^verbatim>\<open>range\<close> left unset the query
  string contains \<^verbatim>\<open>interval=1&range=7&\<close>.
\<close>

theorem intraday_unset_defaults_emitted:
  "intraday_url \<lparr>api_key = PyStr ''T''\<rparr> (PyStr ''AAPL'') None None None None =
     Inr ''https://www.worldtradingdata.com/api/v1/intraday?symbol=AAPL&interval=1&range=7&api_token=T''
   \<and> intraday_url \<lparr>api_key = PyStr ''T''\<rparr> (PyStr ''AAPL'') None None None None \<noteq>
     Inr ''https://www.worldtradingdata.com/api/v1/intraday?symbol=AAPL&api_token=T''"
  by (simp add: intraday_url_def API_get_def API_def build_misc_string_def default_arg_def
      str_int_def str_nat.simps digit_char_def)

text \<open>
  Claim C7. \<^verbatim>\<open>search("apple", stock_exchange=["NYSE","NASDAQ"])\<close>, every other optional
  argument left unset, builds the search base URL of the registry followed by
  \<^verbatim>\<open>?search_term=apple&stock_exchange=NYSE,NASDAQ&api_token=\<close> and the stored token,
  and fetches exactly that URL.
\<close>

theorem search_apple_url:
  assumes "api_key self = PyStr tok"
  shows "search_url self (PyStr ''apple'') None (Some (PyList [AStr ''NYSE'', AStr ''NASDAQ'']))
       None None None None None =
     Inr (''https://www.worldtradingdata.com/api/v1/stock_search?search_term=apple&stock_exchange=NYSE,NASDAQ&api_token='' @ tok)
   \<and> API_get ''search'' = Inr ''https://www.worldtradingdata.com/api/v1/stock_search''
   \<and> search get loads self (PyStr ''apple'') None (Some (PyList [AStr ''NYSE'', AStr ''NASDAQ'']))
       None None None None None =
     get_api_response get loads
       (''https://www.worldtradingdata.com/api/v1/stock_search?search_term=apple&stock_exchange=NYSE,NASDAQ&api_token='' @ tok)"
proof -
  have u: "search_url self (PyStr ''apple'') None (Some (PyList [AStr ''NYSE'', AStr ''NASDAQ'']))
       None None None None None =
     Inr (''https://www.worldtradingdata.com/api/v1/stock_search?search_term=apple&stock_exchange=NYSE,NASDAQ&api_token='' @ tok)"
    by (simp add: search_url_str [OF assms] fragment_def default_arg_def)
  have a: "API_get ''search'' = Inr ''https://www.worldtradingdata.com/api/v1/stock_search''"
    by (simp add: API_get_def API_def)
  from u a show ?thesis
    by (simp add: search_def)
qed

theorem search_apple_url_witness:
  "search_url \<lparr>api_key = PyStr ''T''\<rparr> (PyStr ''apple'') None
       (Some (PyList [AStr ''NYSE'', AStr ''NASDAQ''])) None None None None None =
     Inr ''https://www.worldtradingdata.com/api/v1/stock_search?search_term=apple&stock_exchange=NYSE,NASDAQ&api_token=T''"
proof -
  have h: "api_key \<lparr>api_key = PyStr ''T''\<rparr> = PyStr ''T''"
    by simp
  from search_apple_url [OF h, THEN conjunct1] show ?thesis
    by simp
qed

section \<open>Properties of the fetch routine\<close>

text \<open>
  Claim C5. When the transport answers the URL of a call with a status other than
  200, the call raises \<^verbatim>\<open>APIAccessError\<close> whose message is \<^verbatim>\<open>Error: \<close> followed by the
  raw body of the response. This holds for the fetch routine and for every operation
  method, and for every decoder: the body is never decoded.
\<close>

theorem non_success_raises_APIAccessError:
  assumes "get url = Inr resp" and "status_code resp \<noteq> SUCCESS"
  shows "get_api_response get loads url = Inl (APIAccessError (''Error: '' @ resp_text resp))
   \<and> (stocks_url self symbols sort_by sort_order = Inr url \<longrightarrow>
        stocks get loads self symbols sort_by sort_order = Inl (APIAccessError (''Error: '' @ resp_text resp)))
   \<and> (mutual_fund_url self symbols sort_order sort_by = Inr url \<longrightarrow>
        mutual_fund get loads self symbols sort_order sort_by = Inl (APIAccessError (''Error: '' @ resp_text resp)))
   \<and> (intraday_url self symbol interval range' sort' formatted = Inr url \<longrightarrow>
        intraday get loads self symbol interval range' sort' formatted = Inl (APIAccessError (''Error: '' @ resp_text resp)))
   \<and> (historic_data_url self symbol date_from date_to sort' formatted = Inr url \<longrightarrow>
        historic_data get loads self symbol date_from date_to sort' formatted = Inl (APIAccessError (''Error: '' @ resp_text resp)))
   \<and> (historic_multi_single_day_url self symbol date sort' formatted = Inr url \<longrightarrow>
        historic_multi_single_day get loads self symbol date sort' formatted = Inl (APIAccessError (''Error: '' @ resp_text resp)))
   \<and> (forex_url self base = Inr url \<longrightarrow>
        forex get loads self base = Inl (APIAccessError (''Error: '' @ resp_text resp)))
   \<and> (forex_historic_url self base convert_to sort' formatted = Inr url \<longrightarrow>
        forex_historic get loads self base convert_to sort' formatted = Inl (APIAccessError (''Error: '' @ resp_text resp)))
   \<and> (forex_historic_single_day_url self base date formatted = Inr url \<longrightarrow>
        forex_historic_single_day get loads self base date formatted = Inl (APIAccessError (''Error: '' @ resp_text resp)))
   \<and> (search_url self search_term search_by stock_exchange currency limit page sort_by sort_order = Inr url \<longrightarrow>
        search get loads self search_term search_by stock_exchange currency limit page sort_by sort_order = Inl (APIAccessError (''Error: '' @ resp_text resp)))"
proof -
  have r: "get_api_response get loads url = Inl (APIAccessError (''Error: '' @ resp_text resp))"
    using assms by (simp add: get_api_response_def)
  then show ?thesis
    by (simp add: stocks_def mutual_fund_def intraday_def historic_data_def historic_multi_single_day_def forex_def forex_historic_def forex_historic_single_day_def search_def)
qed

theorem non_success_raises_APIAccessError_witness:
  "stocks (mock_get 404 ''not found'') loads_foo \<lparr>api_key = PyStr ''T''\<rparr> (PyStr ''AAPL'') None None =
       Inl (APIAccessError ''Error: not found'')
   \<and> mutual_fund (mock_get 404 ''not found'') loads_foo \<lparr>api_key = PyStr ''T''\<rparr> (PyList [AStr ''AAAAX'', AStr ''AAADX'']) None None =
       Inl (APIAccessError ''Error: not found'')
   \<and> intraday (mock_get 404 ''not found'') loads_foo \<lparr>api_key = PyStr ''T''\<rparr> (PyStr ''AAPL'') None None None None =
       Inl (APIAccessError ''Error: not found'')
   \<and> historic_data (mock_get 404 ''not found'') loads_foo \<lparr>api_key = PyStr ''T''\<rparr> (PyStr ''AAPL'') None None None None =
       Inl (APIAccessError ''Error: not found'')
   \<and> historic_multi_single_day (mock_get 404 ''not found'') loads_foo \<lparr>api_key = PyStr ''T''\<rparr> (PyStr ''AAPL'') (PyStr ''2019-01-02'') None None =
       Inl (APIAccessError ''Error: not found'')
   \<and> forex (mock_get 404 ''not found'') loads_foo \<lparr>api_key = PyStr ''T''\<rparr> (PyStr ''USD'') =
       Inl (APIAccessError ''Error: not found'')
   \<and> forex_historic (mock_get 404 ''not found'') loads_foo \<lparr>api_key = PyStr ''T''\<rparr> (PyStr ''USD'') (PyStr ''EUR'') None None =
       Inl (APIAccessError ''Error: not found'')
   \<and> forex_historic_single_day (mock_get 404 ''not found'') loads_foo \<lparr>api_key = PyStr ''T''\<rparr> (PyStr ''USD'') (PyStr ''2019-01-02'') None =
       Inl (APIAccessError ''Error: not found'')
   \<and> search (mock_get 404 ''not found'') loads_foo \<lparr>api_key = PyStr ''T''\<rparr> (PyStr ''apple'') None None None None None None None =
       Inl (APIAccessError ''Error: not found'')"
proof -
  let ?g = "mock_get 404 ''not found''"
  let ?r = "\<lparr>status_code = 404, resp_text = ''not found''\<rparr>"
  let ?c = "\<lparr>api_key = PyStr ''T''\<rparr>"
  have h: "api_key ?c = PyStr ''T''"
    by simp
  have g: "?g u = Inr ?r" for u
    by (simp add: mock_get_def)
  have s: "status_code ?r \<noteq> SUCCESS"
    by (simp add: SUCCESS_def)
  have r0: "stocks ?g loads_foo ?c (PyStr ''AAPL'') None None =
      Inl (APIAccessError ''Error: not found'')"
    using non_success_raises_APIAccessError [where get = ?g and resp = ?r and url = "''https://www.worldtradingdata.com/api/v1/stock?symbol=AAPL&api_token=T''"
        and loads = loads_foo and self = ?c and symbols = "PyStr ''AAPL''" and sort_by = None and sort_order = None, OF g s]
    by (simp add: stocks_url_str [OF h] fragment_def default_arg_def str_int_def str_nat.simps digit_char_def loads_foo_def)
  have r1: "mutual_fund ?g loads_foo ?c (PyList [AStr ''AAAAX'', AStr ''AAADX'']) None None =
      Inl (APIAccessError ''Error: not found'')"
    using non_success_raises_APIAccessError [where get = ?g and resp = ?r and url = "''https://www.worldtradingdata.com/api/v1/mutualfund?symbol=AAAAX,AAADX&api_token=T''"
        and loads = loads_foo and self = ?c and symbols = "PyList [AStr ''AAAAX'', AStr ''AAADX'']" and sort_order = None and sort_by = None, OF g s]
    by (simp add: mutual_fund_url_str [OF h] fragment_def default_arg_def str_int_def str_nat.simps digit_char_def loads_foo_def)
  have r2: "intraday ?g loads_foo ?c (PyStr ''AAPL'') None None None None =
      Inl (APIAccessError ''Error: not found'')"
    using non_success_raises_APIAccessError [where get = ?g and resp = ?r and url = "''https://www.worldtradingdata.com/api/v1/intraday?symbol=AAPL&interval=1&range=7&api_token=T''"
        and loads = loads_foo and self = ?c and symbol = "PyStr ''AAPL''" and interval = None and range' = None and sort' = None and formatted = None, OF g s]
    by (simp add: intraday_url_str [OF h] fragment_def default_arg_def str_int_def str_nat.simps digit_char_def loads_foo_def)
  have r3: "historic_data ?g loads_foo ?c (PyStr ''AAPL'') None None None None =
      Inl (APIAccessError ''Error: not found'')"
    using non_success_raises_APIAccessError [where get = ?g and resp = ?r and url = "''https://www.worldtradingdata.com/api/v1/history?symbol=AAPL&api_token=T''"
        and loads = loads_foo and self = ?c and symbol = "PyStr ''AAPL''" and date_from = None and date_to = None and sort' = None and formatted = None, OF g s]
    by (simp add: historic_data_url_str [OF h] fragment_def default_arg_def str_int_def str_nat.simps digit_char_def loads_foo_def)
  have r4: "historic_multi_single_day ?g loads_foo ?c (PyStr ''AAPL'') (PyStr ''2019-01-02'') None None =
      Inl (APIAccessError ''Error: not found'')"
    using non_success_raises_APIAccessError [where get = ?g and resp = ?r and url = "''https://www.worldtradingdata.com/api/v1/history_multi_single_day?symbol=AAPL&date=2019-01-02&api_token=T''"
        and loads = loads_foo and self = ?c and symbol = "PyStr ''AAPL''" and date = "PyStr ''2019-01-02''" and sort' = None and formatted = None, OF g s]
    by (simp add: historic_multi_single_day_url_str [OF h] fragment_def default_arg_def str_int_def str_nat.simps digit_char_def loads_foo_def)
  have r5: "forex ?g loads_foo ?c (PyStr ''USD'') =
      Inl (APIAccessError ''Error: not found'')"
    using non_success_raises_APIAccessError [where get = ?g and resp = ?r and url = "''https://www.worldtradingdata.com/api/v1/forex?base=USD&api_token=T''"
        and loads = loads_foo and self = ?c and base = "PyStr ''USD''", OF g s]
    by (simp add: forex_url_str [OF h] fragment_def default_arg_def str_int_def str_nat.simps digit_char_def loads_foo_def)
  have r6: "forex_historic ?g loads_foo ?c (PyStr ''USD'') (PyStr ''EUR'') None None =
      Inl (APIAccessError ''Error: not found'')"
    using non_success_raises_APIAccessError [where get = ?g and resp = ?r and url = "''https://www.worldtradingdata.com/api/v1/forex_history?base=USD&convert_to=EUR&api_token=T''"
        and loads = loads_foo and self = ?c and base = "PyStr ''USD''" and convert_to = "PyStr ''EUR''" and sort' = None and formatted = None, OF g s]
    by (simp add: forex_historic_url_str [OF h] fragment_def default_arg_def str_int_def str_nat.simps digit_char_def loads_foo_def)
  have r7: "forex_historic_single_day ?g loads_foo ?c (PyStr ''USD'') (PyStr ''2019-01-02'') None =
      Inl (APIAccessError ''Error: not found'')"
    using non_success_raises_APIAccessError [where get = ?g and resp = ?r and url = "''https://www.worldtradingdata.com/api/v1/forex_single_day?base=USD&date=2019-01-02&api_token=T''"
        and loads = loads_foo and self = ?c and base = "PyStr ''USD''" and date = "PyStr ''2019-01-02''" and formatted = None, OF g s]
    by (simp add: forex_historic_single_day_url_str [OF h] fragment_def default_arg_def str_int_def str_nat.simps digit_char_def loads_foo_def)
  have r8: "search ?g loads_foo ?c (PyStr ''apple'') None None None None None None None =
      Inl (APIAccessError ''Error: not found'')"
    using non_success_raises_APIAccessError [where get = ?g and resp = ?r and url = "''https://www.worldtradingdata.com/api/v1/stock_search?search_term=apple&api_token=T''"
        and loads = loads_foo and self = ?c and search_term = "PyStr ''apple''" and search_by = None and stock_exchange = None and currency = None and limit = None and page = None and sort_by = None and sort_order = None, OF g s]
    by (simp add: search_url_str [OF h] fragment_def default_arg_def str_int_def str_nat.simps digit_char_def loads_foo_def)
  show ?thesis
    by (intro conjI; (rule r0 r1 r2 r3 r4 r5 r6 r7 r8))
qed

text \<open>
  Claim C6, as the code has it. When the transport answers the URL of a call with
  status 200, the call returns what the decoder returns for the body of the response,
  unchanged: the decoded value when the body decodes, the error of the decoder when it
  does not. This holds for the fetch routine and for every operation method. With a
  mocked transport answering 200 and \<^verbatim>\<open>{"foo": 1}\<close>, \<^verbatim>\<open>stocks("AAPL")\<close> returns the
  value the decoder gives for that body.
\<close>

theorem success_returns_decoder_outcome:
  assumes "get url = Inr resp" and "status_code resp = SUCCESS"
  shows "get_api_response get loads url = loads (resp_text resp)
   \<and> (stocks_url self symbols sort_by sort_order = Inr url \<longrightarrow>
        stocks get loads self symbols sort_by sort_order = loads (resp_text resp))
   \<and> (mutual_fund_url self symbols sort_order sort_by = Inr url \<longrightarrow>
        mutual_fund get loads self symbols sort_order sort_by = loads (resp_text resp))
   \<and> (intraday_url self symbol interval range' sort' formatted = Inr url \<longrightarrow>
        intraday get loads self symbol interval range' sort' formatted = loads (resp_text resp))
   \<and> (historic_data_url self symbol date_from date_to sort' formatted = Inr url \<longrightarrow>
        historic_data get loads self symbol date_from date_to sort' formatted = loads (resp_text resp))
   \<and> (historic_multi_single_day_url self symbol date sort' formatted = Inr url \<longrightarrow>
        historic_multi_single_day get loads self symbol date sort' formatted = loads (resp_text resp))
   \<and> (forex_url self base = Inr url \<longrightarrow>
        forex get loads self base = loads (resp_text resp))
   \<and> (forex_historic_url self base convert_to sort' formatted = Inr url \<longrightarrow>
        forex_historic get loads self base convert_to sort' formatted = loads (resp_text resp))
   \<and> (forex_historic_single_day_url self base date formatted = Inr url \<longrightarrow>
        forex_historic_single_day get loads self base date formatted = loads (resp_text resp))
   \<and> (search_url self search_term search_by stock_exchange currency limit page sort_by sort_order = Inr url \<longrightarrow>
        search get loads self search_term search_by stock_exchange currency limit page sort_by sort_order = loads (resp_text resp))
   \<and> (api_key self = PyStr tok \<and> loads foo_body = Inr v \<longrightarrow>
        stocks (mock_get 200 foo_body) loads self (PyStr ''AAPL'') None None = Inr v)"
proof -
  have r: "get_api_response get loads url = loads (resp_text resp)"
    using assms by (simp add: get_api_response_def)
  have e: "stocks (mock_get 200 foo_body) loads self (PyStr ''AAPL'') None None = Inr v"
    if "api_key self = PyStr tok" and "loads foo_body = Inr v"
    using that
    by (simp add: stocks_def stocks_url_str get_api_response_def mock_get_def SUCCESS_def)
  from r e show ?thesis
    by (simp add: stocks_def mutual_fund_def intraday_def historic_data_def historic_multi_single_day_def forex_def forex_historic_def forex_historic_single_day_def search_def)
qed

theorem success_returns_decoder_outcome_witness:
  "stocks (mock_get 200 foo_body) loads_foo \<lparr>api_key = PyStr ''T''\<rparr> (PyStr ''AAPL'') None None =
       Inr (JObj [(''foo'', JInt 1)])
   \<and> mutual_fund (mock_get 200 foo_body) loads_foo \<lparr>api_key = PyStr ''T''\<rparr> (PyList [AStr ''AAAAX'', AStr ''AAADX'']) None None =
       Inr (JObj [(''foo'', JInt 1)])
   \<and> intraday (mock_get 200 foo_body) loads_foo \<lparr>api_key = PyStr ''T''\<rparr> (PyStr ''AAPL'') None None None None =
       Inr (JObj [(''foo'', JInt 1)])
   \<and> historic_data (mock_get 200 foo_body) loads_foo \<lparr>api_key = PyStr ''T''\<rparr> (PyStr ''AAPL'') None None None None =
       Inr (JObj [(''foo'', JInt 1)])
   \<and> historic_multi_single_day (mock_get 200 foo_body) loads_foo \<lparr>api_key = PyStr ''T''\<rparr> (PyStr ''AAPL'') (PyStr ''2019-01-02'') None None =
       Inr (JObj [(''foo'', JInt 1)])
   \<and> forex (mock_get 200 foo_body) loads_foo \<lparr>api_key = PyStr ''T''\<rparr> (PyStr ''USD'') =
       Inr (JObj [(''foo'', JInt 1)])
   \<and> forex_historic (mock_get 200 foo_body) loads_foo \<lparr>api_key = PyStr ''T''\<rparr> (PyStr ''USD'') (PyStr ''EUR'') None None =
       Inr (JObj [(''foo'', JInt 1)])
   \<and> forex_historic_single_day (mock_get 200 foo_body) loads_foo \<lparr>api_key = PyStr ''T''\<rparr> (PyStr ''USD'') (PyStr ''2019-01-02'') None =
       Inr (JObj [(''foo'', JInt 1)])
   \<and> search (mock_get 200 foo_body) loads_foo \<lparr>api_key = PyStr ''T''\<rparr> (PyStr ''apple'') None None None None None None None =
       Inr (JObj [(''foo'', JInt 1)])"
proof -
  let ?g = "mock_get 200 foo_body"
  let ?r = "\<lparr>status_code = 200, resp_text = foo_body\<rparr>"
  let ?c = "\<lparr>api_key = PyStr ''T''\<rparr>"
  have h: "api_key ?c = PyStr ''T''"
    by simp
  have g: "?g u = Inr ?r" for u
    by (simp add: mock_get_def)
  have s: "status_code ?r = SUCCESS"
    by (simp add: SUCCESS_def)
  have r0: "stocks ?g loads_foo ?c (PyStr ''AAPL'') None None =
      Inr (JObj [(''foo'', JInt 1)])"
    using success_returns_decoder_outcome [where get = ?g and resp = ?r and url = "''https://www.worldtradingdata.com/api/v1/stock?symbol=AAPL&api_token=T''"
        and loads = loads_foo and self = ?c and symbols = "PyStr ''AAPL''" and sort_by = None and sort_order = None, OF g s]
    by (simp add: stocks_url_str [OF h] fragment_def default_arg_def str_int_def str_nat.simps digit_char_def loads_foo_def)
  have r1: "mutual_fund ?g loads_foo ?c (PyList [AStr ''AAAAX'', AStr ''AAADX'']) None None =
      Inr (JObj [(''foo'', JInt 1)])"
    using success_returns_decoder_outcome [where get = ?g and resp = ?r and url = "''https://www.worldtradingdata.com/api/v1/mutualfund?symbol=AAAAX,AAADX&api_token=T''"
        and loads = loads_foo and self = ?c and symbols = "PyList [AStr ''AAAAX'', AStr ''AAADX'']" and sort_order = None and sort_by = None, OF g s]
    by (simp add: mutual_fund_url_str [OF h] fragment_def default_arg_def str_int_def str_nat.simps digit_char_def loads_foo_def)
  have r2: "intraday ?g loads_foo ?c (PyStr ''AAPL'') None None None None =
      Inr (JObj [(''foo'', JInt 1)])"
    using success_returns_decoder_outcome [where get = ?g and resp = ?r and url = "''https://www.worldtradingdata.com/api/v1/intraday?symbol=AAPL&interval=1&range=7&api_token=T''"
        and loads = loads_foo and self = ?c and symbol = "PyStr ''AAPL''" and interval = None and range' = None and sort' = None and formatted = None, OF g s]
    by (simp add: intraday_url_str [OF h] fragment_def default_arg_def str_int_def str_nat.simps digit_char_def loads_foo_def)
  have r3: "historic_data ?g loads_foo ?c (PyStr ''AAPL'') None None None None =
      Inr (JObj [(''foo'', JInt 1)])"
    using success_returns_decoder_outcome [where get = ?g and resp = ?r and url = "''https://www.worldtradingdata.com/api/v1/history?symbol=AAPL&api_token=T''"
        and loads = loads_foo and self = ?c and symbol = "PyStr ''AAPL''" and date_from = None and date_to = None and sort' = None and formatted = None, OF g s]
    by (simp add: historic_data_url_str [OF h] fragment_def default_arg_def str_int_def str_nat.simps digit_char_def loads_foo_def)
  have r4: "historic_multi_single_day ?g loads_foo ?c (PyStr ''AAPL'') (PyStr ''2019-01-02'') None None =
      Inr (JObj [(''foo'', JInt 1)])"
    using success_returns_decoder_outcome [where get = ?g and resp = ?r and url = "''https://www.worldtradingdata.com/api/v1/history_multi_single_day?symbol=AAPL&date=2019-01-02&api_token=T''"
        and loads = loads_foo and self = ?c and symbol = "PyStr ''AAPL''" and date = "PyStr ''2019-01-02''" and sort' = None and formatted = None, OF g s]
    by (simp add: historic_multi_single_day_url_str [OF h] fragment_def default_arg_def str_int_def str_nat.simps digit_char_def loads_foo_def)
  have r5: "forex ?g loads_foo ?c (PyStr ''USD'') =
      Inr (JObj [(''foo'', JInt 1)])"
    using success_returns_decoder_outcome [where get = ?g and resp = ?r and url = "''https://www.worldtradingdata.com/api/v1/forex?base=USD&api_token=T''"
        and loads = loads_foo and self = ?c and base = "PyStr ''USD''", OF g s]
    by (simp add: forex_url_str [OF h] fragment_def default_arg_def str_int_def str_nat.simps digit_char_def loads_foo_def)
  have r6: "forex_historic ?g loads_foo ?c (PyStr ''USD'') (PyStr ''EUR'') None None =
      Inr (JObj [(''foo'', JInt 1)])"
    using success_returns_decoder_outcome [where get = ?g and resp = ?r and url = "''https://www.worldtradingdata.com/api/v1/forex_history?base=USD&convert_to=EUR&api_token=T''"
        and loads = loads_foo and self = ?c and base = "PyStr ''USD''" and convert_to = "PyStr ''EUR''" and sort' = None and formatted = None, OF g s]
    by (simp add: forex_historic_url_str [OF h] fragment_def default_arg_def str_int_def str_nat.simps digit_char_def loads_foo_def)
  have r7: "forex_historic_single_day ?g loads_foo ?c (PyStr ''USD'') (PyStr ''2019-01-02'') None =
      Inr (JObj [(''foo'', JInt 1)])"
    using success_returns_decoder_outcome [where get = ?g and resp = ?r and url = "''https://www.worldtradingdata.com/api/v1/forex_single_day?base=USD&date=2019-01-02&api_token=T''"
        and loads = loads_foo and self = ?c and base = "PyStr ''USD''" and date = "PyStr ''2019-01-02''" and formatted = None, OF g s]
    by (simp add: forex_historic_single_day_url_str [OF h] fragment_def default_arg_def str_int_def str_nat.simps digit_char_def loads_foo_def)
  have r8: "search ?g loads_foo ?c (PyStr ''apple'') None None None None None None None =
      Inr (JObj [(''foo'', JInt 1)])"
    using success_returns_decoder_outcome [where get = ?g and resp = ?r and url = "''https://www.worldtradingdata.com/api/v1/stock_search?search_term=apple&api_token=T''"
        and loads = loads_foo and self = ?c and search_term = "PyStr ''apple''" and search_by = None and stock_exchange = None and currency = None and limit = None and page = None and sort_by = None and sort_order = None, OF g s]
    by (simp add: search_url_str [OF h] fragment_def default_arg_def str_int_def str_nat.simps digit_char_def loads_foo_def)
  show ?thesis
    by (intro conjI; (rule r0 r1 r2 r3 r4 r5 r6 r7 r8))
qed

text \<open>
  Claim C6 as stated, a decoded value and no error for every response with status
  200, fails on a body that is not JSON: with status 200 and the body
  \<^verbatim>\<open>not found\<close> the call raises the error of the decoder.
\<close>

theorem success_status_undecodable_body_raises:
  "stocks (mock_get 200 ''not found'') loads_foo \<lparr>api_key = PyStr ''T''\<rparr>
     (PyStr ''AAPL'') None None = Inl JSONDecodeError"
  by (simp add: stocks_def stocks_url_def API_get_def API_def build_misc_string_def
      default_arg_def get_api_response_def mock_get_def SUCCESS_def loads_foo_def foo_body_def)

end
